theory Spec2Isabelle
  imports Main "HOL-Library.Word"
begin

section \<open>The zap helper of controller-runtime: data model\<close>

text \<open>
  The file \<^verbatim>\<open>pkg/log/zap/zap.go\<close> assembles a configuration record and hands it to the
  zap logging library. The library itself is not part of the verified file, so every
  library call that only constructs a value (\<^verbatim>\<open>zap.Development()\<close>,
  \<^verbatim>\<open>zapcore.NewSampler(core, d, n, m)\<close>, \<^verbatim>\<open>zapcore.NewCore(enc, sink, lvl)\<close>, ...) is kept
  as a free constructor named after the call: what the helper builds is then visible as a
  term. An interface value that may be \<^verbatim>\<open>nil\<close> is an \<open>option\<close>.
\<close>

subsection \<open>Values of the logging library\<close>

text \<open>\<^verbatim>\<open>zapcore.Level\<close> is a signed 8-bit integer; the named levels are its constants.\<close>

type_synonym zapcore_Level = "8 word"

definition zap_DebugLevel :: zapcore_Level where "zap_DebugLevel = - 1"
definition zap_InfoLevel :: zapcore_Level where "zap_InfoLevel = 0"
definition zap_WarnLevel :: zapcore_Level where "zap_WarnLevel = 1"
definition zap_ErrorLevel :: zapcore_Level where "zap_ErrorLevel = 2"

text \<open>
  \<^verbatim>\<open>zapcore.LevelEnabler\<close> is an interface with the single method \<^verbatim>\<open>Enabled(Level) bool\<close>.
  The helper itself only creates atomic levels; a caller may pass any other enabler,
  which is a predicate on levels.
\<close>

datatype zapcore_LevelEnabler =
    zap_NewAtomicLevelAt zapcore_Level
  | zap_LevelEnablerFunc "zapcore_Level \<Rightarrow> bool"

text \<open>A level \<open>l\<close> enables \<open>lvl\<close> when \<^verbatim>\<open>lvl >= l\<close>, compared as signed integers.\<close>

fun Enabled :: "zapcore_LevelEnabler \<Rightarrow> zapcore_Level \<Rightarrow> bool" where
  "Enabled (zap_NewAtomicLevelAt l) lvl = (sint l \<le> sint lvl)"
| "Enabled (zap_LevelEnablerFunc f) lvl = f lvl"

text \<open>
  \<^verbatim>\<open>zapcore.EncoderConfig\<close>: the two presets the helper starts from, and any other
  configuration value. An \<^verbatim>\<open>EncoderConfigOption\<close> mutates a configuration through a
  pointer; here it maps the old configuration to the new one.
\<close>

datatype zapcore_EncoderConfig =
    zap_NewProductionEncoderConfig
  | zap_NewDevelopmentEncoderConfig
  | EncoderConfig nat

type_synonym EncoderConfigOption = "zapcore_EncoderConfig \<Rightarrow> zapcore_EncoderConfig"

text \<open>
  \<^verbatim>\<open>zapcore.Encoder\<close>: the two encoders of the library, any other encoder a caller
  supplies, and the package's own decorator \<^verbatim>\<open>KubeAwareEncoder{Encoder: e, Verbose: v}\<close>.
\<close>

datatype zapcore_Encoder =
    zapcore_NewJSONEncoder zapcore_EncoderConfig
  | zapcore_NewConsoleEncoder zapcore_EncoderConfig
  | OtherEncoder nat
  | KubeAwareEncoder "zapcore_Encoder option" bool

type_synonym NewEncoderFunc = "EncoderConfigOption list \<Rightarrow> zapcore_Encoder"

text \<open>\<^verbatim>\<open>io.Writer\<close>: standard error, or any other writer.\<close>

datatype io_Writer = os_Stderr | OtherWriter nat

datatype zapcore_WriteSyncer = zapcore_AddSync "io_Writer option"

text \<open>\<^verbatim>\<open>time.Duration\<close> counts nanoseconds.\<close>

definition time_Second :: int where "time_Second = 1000000000"

datatype zapcore_Core =
    zapcore_NewCore zapcore_Encoder zapcore_WriteSyncer "zapcore_LevelEnabler option"
  | zapcore_NewSampler zapcore_Core int nat nat
  | OtherCore nat

datatype zap_Option =
    zap_Development
  | zap_WrapCore "zapcore_Core \<Rightarrow> zapcore_Core"
  | zap_AddStacktrace "zapcore_LevelEnabler option"
  | zap_AddCallerSkip int
  | zap_ErrorOutput zapcore_WriteSyncer
  | OtherOption nat

datatype zap_Logger =
    zap_New zapcore_Core
  | WithOptions zap_Logger "zap_Option list"

subsection \<open>Options\<close>

record Options =
  Development :: bool
  Encoder :: "zapcore_Encoder option"
  EncoderConfigOptions :: "EncoderConfigOption list"
  NewEncoder :: "NewEncoderFunc option"
  DestWritter :: "io_Writer option"
  Level :: "zapcore_LevelEnabler option"
  StacktraceLevel :: "zapcore_LevelEnabler option"
  ZapOpts :: "zap_Option list"

text \<open>The zero value \<^verbatim>\<open>Options{}\<close>.\<close>

definition Options_zero :: Options where
  "Options_zero =
     \<lparr> Development = False, Encoder = None, EncoderConfigOptions = [], NewEncoder = None,
       DestWritter = None, Level = None, StacktraceLevel = None, ZapOpts = [] \<rparr>"

text \<open>
  Calling a method of a nil interface or a nil function, or reading through a nil
  pointer, panics; so does registering a flag name twice in one flag set.
\<close>

datatype panic = NilDereference | FlagRedefined string

section \<open>The encoder constructors\<close>

text \<open>
  \<^verbatim>\<open>for _, opt := range opts { opt(&encoderConfig) }\<close>: the customizers run in order on
  the preset.
\<close>

definition newJSONEncoder :: NewEncoderFunc where
  "newJSONEncoder opts =
     zapcore_NewJSONEncoder (foldl (\<lambda>encoderConfig opt. opt encoderConfig)
       zap_NewProductionEncoderConfig opts)"

definition newConsoleEncoder :: NewEncoderFunc where
  "newConsoleEncoder opts =
     zapcore_NewConsoleEncoder (foldl (\<lambda>encoderConfig opt. opt encoderConfig)
       zap_NewDevelopmentEncoderConfig opts)"

section \<open>The defaulting pass\<close>

text \<open>The closure passed to \<^verbatim>\<open>zap.WrapCore\<close> in production mode.\<close>

definition sampler :: "zapcore_Core \<Rightarrow> zapcore_Core" where
  "sampler core = zapcore_NewSampler core time_Second 100 100"

text \<open>The branch \<^verbatim>\<open>if o.Development { ... }\<close>.\<close>

definition addDefaults_development :: "Options \<Rightarrow> Options" where
  "addDefaults_development o1 =
     (let o2 = (if NewEncoder o1 = None then o1\<lparr>NewEncoder := Some newConsoleEncoder\<rparr> else o1);
          o3 = (if Level o2 = None
                then o2\<lparr>Level := Some (zap_NewAtomicLevelAt zap_DebugLevel)\<rparr> else o2);
          o4 = (if StacktraceLevel o3 = None
                then o3\<lparr>StacktraceLevel := Some (zap_NewAtomicLevelAt zap_WarnLevel)\<rparr> else o3)
      in o4\<lparr>ZapOpts := ZapOpts o4 @ [zap_Development]\<rparr>)"

text \<open>
  The branch \<^verbatim>\<open>else { ... }\<close>. The call \<^verbatim>\<open>o.Level.Enabled(zapcore.Level(-2))\<close> is a method
  call on an interface value and panics on nil.
\<close>

definition addDefaults_production :: "Options \<Rightarrow> panic + Options" where
  "addDefaults_production o1 =
     (let o2 = (if NewEncoder o1 = None then o1\<lparr>NewEncoder := Some newJSONEncoder\<rparr> else o1);
          o3 = (if Level o2 = None
                then o2\<lparr>Level := Some (zap_NewAtomicLevelAt zap_InfoLevel)\<rparr> else o2);
          o4 = (if StacktraceLevel o3 = None
                then o3\<lparr>StacktraceLevel := Some (zap_NewAtomicLevelAt zap_ErrorLevel)\<rparr> else o3)
      in case Level o4 of
           None \<Rightarrow> Inl NilDereference
         | Some lvl \<Rightarrow>
             if \<not> Enabled lvl (- 2)
             then Inr (o4\<lparr>ZapOpts := ZapOpts o4 @ [zap_WrapCore sampler]\<rparr>)
             else Inr o4)"

text \<open>
  The last two statements of \<^verbatim>\<open>addDefaults\<close>: build the encoder when none is set
  (\<^verbatim>\<open>o.NewEncoder(o.EncoderConfigOptions...)\<close> panics on a nil function), then append
  the stack-trace option.
\<close>

definition addDefaults_encoder :: "Options \<Rightarrow> panic + Options" where
  "addDefaults_encoder o5 =
     (if Encoder o5 = None
      then (case NewEncoder o5 of
              None \<Rightarrow> Inl NilDereference
            | Some f \<Rightarrow> Inr (o5\<lparr>Encoder := Some (f (EncoderConfigOptions o5))\<rparr>))
      else Inr o5)"

definition addDefaults :: "Options \<Rightarrow> panic + Options" where
  "addDefaults o0 =
     (let o1 = (if DestWritter o0 = None then o0\<lparr>DestWritter := Some os_Stderr\<rparr> else o0)
      in case (if Development o1 then Inr (addDefaults_development o1)
               else addDefaults_production o1) of
           Inl p \<Rightarrow> Inl p
         | Inr o5 \<Rightarrow>
             (case addDefaults_encoder o5 of
                Inl p \<Rightarrow> Inl p
              | Inr o6 \<Rightarrow>
                  Inr (o6\<lparr>ZapOpts := ZapOpts o6 @ [zap_AddStacktrace (StacktraceLevel o6)]\<rparr>)))"

section \<open>Functional options\<close>

text \<open>
  \<^verbatim>\<open>type Opts func(*Options)\<close>: a setter mutates the record it is given. With the record
  passed as a value, it maps the old record to the new one. Interface arguments may be
  nil, so they are options. The elements of a list of options are the closures
  themselves: a nil element, which panics when called, is not a value of this type.
\<close>

type_synonym Opts = "Options \<Rightarrow> Options"

definition UseDevMode :: "bool \<Rightarrow> Opts" where
  "UseDevMode enabled = (\<lambda>o1. o1\<lparr>Development := enabled\<rparr>)"

definition WriteTo :: "io_Writer option \<Rightarrow> Opts" where
  "WriteTo out = (\<lambda>o1. o1\<lparr>DestWritter := out\<rparr>)"

definition Encoder_opt :: "zapcore_Encoder option \<Rightarrow> Opts" where
  "Encoder_opt encoder = (\<lambda>o1. o1\<lparr>Encoder := encoder\<rparr>)"

definition JSONEncoder :: "EncoderConfigOption list \<Rightarrow> Opts" where
  "JSONEncoder opts = (\<lambda>o1. o1\<lparr>Encoder := Some (newJSONEncoder opts)\<rparr>)"

definition ConsoleEncoder :: "EncoderConfigOption list \<Rightarrow> Opts" where
  "ConsoleEncoder opts = (\<lambda>o1. o1\<lparr>Encoder := Some (newConsoleEncoder opts)\<rparr>)"

definition Level_opt :: "zapcore_LevelEnabler option \<Rightarrow> Opts" where
  "Level_opt level = (\<lambda>o1. o1\<lparr>Level := level\<rparr>)"

definition StacktraceLevel_opt :: "zapcore_LevelEnabler option \<Rightarrow> Opts" where
  "StacktraceLevel_opt stacktraceLevel = (\<lambda>o1. o1\<lparr>StacktraceLevel := stacktraceLevel\<rparr>)"

definition RawZapOpts :: "zap_Option list \<Rightarrow> Opts" where
  "RawZapOpts zapOpts = (\<lambda>o1. o1\<lparr>ZapOpts := ZapOpts o1 @ zapOpts\<rparr>)"

text \<open>
  \<^verbatim>\<open>UseFlagOptions(in)\<close> runs \<^verbatim>\<open>*o = *in\<close>: the whole record is overwritten with the
  contents of \<^verbatim>\<open>in\<close>. (The version on an explicit store, with \<^verbatim>\<open>in\<close> a pointer, is
  \<open>UseFlagOptions_at\<close> below.)
\<close>

definition UseFlagOptions :: "Options \<Rightarrow> Opts" where
  "UseFlagOptions in1 = (\<lambda>o1. in1)"

section \<open>Logger construction\<close>

text \<open>The loop \<^verbatim>\<open>for _, opt := range opts { opt(o) }\<close>.\<close>

definition applyOpts :: "Options \<Rightarrow> Opts list \<Rightarrow> Options" where
  "applyOpts o1 opts = foldl (\<lambda>o2 opt. opt o2) o1 opts"

text \<open>\<^verbatim>\<open>NewRaw\<close> from the call of \<^verbatim>\<open>o.addDefaults()\<close> on.\<close>

definition NewRaw_build :: "Options \<Rightarrow> panic + zap_Logger" where
  "NewRaw_build o1 =
     (case addDefaults o1 of
        Inl p \<Rightarrow> Inl p
      | Inr o2 \<Rightarrow>
          (let sink = zapcore_AddSync (DestWritter o2);
               o3 = o2\<lparr>ZapOpts := ZapOpts o2 @ [zap_AddCallerSkip 1, zap_ErrorOutput sink]\<rparr>;
               log = zap_New (zapcore_NewCore
                        (KubeAwareEncoder (Encoder o3) (Development o3)) sink (Level o3))
           in Inr (WithOptions log (ZapOpts o3))))"

definition NewRaw :: "Opts list \<Rightarrow> panic + zap_Logger" where
  "NewRaw opts = NewRaw_build (applyOpts Options_zero opts)"

section \<open>Flag binding\<close>

subsection \<open>The flag set\<close>

text \<open>
  A \<^verbatim>\<open>flag.FlagSet\<close> maps flag names to values with a \<^verbatim>\<open>Set(string) error\<close> method. The
  flags of interest write through pointers into one \<^verbatim>\<open>Options\<close> record, so a flag value is
  modelled by what its \<^verbatim>\<open>Set\<close> does to that record: the error it returns, if any, and
  the record as it is left.
  The list keeps the flags in the order of registration.
\<close>

datatype flag_error = InvalidValue string string | NotDefined string

type_synonym flag_Value = "string \<Rightarrow> Options \<Rightarrow> flag_error option \<times> Options"

type_synonym FlagSet = "(string \<times> flag_Value) list"

text \<open>\<^verbatim>\<open>fs.Var(value, name, usage)\<close>: registering a name that is already defined panics.\<close>

definition fs_Var :: "FlagSet \<Rightarrow> flag_Value \<Rightarrow> string \<Rightarrow> panic + FlagSet" where
  "fs_Var fs v name =
     (if name \<in> set (map fst fs) then Inl (FlagRedefined name) else Inr (fs @ [(name, v)]))"

text \<open>
  Parsing the arguments \<^verbatim>\<open>-name=value\<close>, given as pairs, in order. The first failure
  stops the parse and is returned; what the flags wrote until then stays written.
\<close>

fun fs_Parse :: "FlagSet \<Rightarrow> (string \<times> string) list \<Rightarrow> Options \<Rightarrow> flag_error option \<times> Options" where
  "fs_Parse fs [] o1 = (None, o1)"
| "fs_Parse fs ((name, v) # args) o1 =
     (case map_of fs name of
        None \<Rightarrow> (Some (NotDefined name), o1)
      | Some f \<Rightarrow>
          (case f v o1 of
             (Some e, o2) \<Rightarrow> (Some e, o2)
           | (None, o2) \<Rightarrow> fs_Parse fs args o2))"

text \<open>
  The value of a flag registered with \<^verbatim>\<open>fs.BoolVar(p, ...)\<close>: \<^verbatim>\<open>Set\<close> stores what
  \<^verbatim>\<open>strconv.ParseBool\<close> reads, also when the read fails: the value is then \<^verbatim>\<open>false\<close>, and
  it is stored before the error is returned. The pointer \<open>p\<close> is given by the store
  through it.
\<close>

definition strconv_ParseBool :: "string \<Rightarrow> bool option" where
  "strconv_ParseBool str =
     (if str \<in> set [''1'', ''t'', ''T'', ''TRUE'', ''true'', ''True''] then Some True
      else if str \<in> set [''0'', ''f'', ''F'', ''FALSE'', ''false'', ''False''] then Some False
      else None)"

definition boolValue_Set :: "(bool \<Rightarrow> Options \<Rightarrow> Options) \<Rightarrow> flag_Value" where
  "boolValue_Set p s o1 =
     (case strconv_ParseBool s of
        None \<Rightarrow> (Some (InvalidValue s ''parse error''), p False o1)
      | Some b \<Rightarrow> (None, p b o1))"

subsection \<open>The flag values of the package\<close>

fun digit_of :: "char \<Rightarrow> nat option" where
  "digit_of c =
     map_of [(CHR ''0'', 0), (CHR ''1'', 1), (CHR ''2'', 2), (CHR ''3'', 3), (CHR ''4'', 4),
             (CHR ''5'', 5), (CHR ''6'', 6), (CHR ''7'', 7), (CHR ''8'', 8), (CHR ''9'', 9)] c"

fun decimal :: "nat \<Rightarrow> string \<Rightarrow> nat option" where
  "decimal acc [] = Some acc"
| "decimal acc (c # cs) =
     (case digit_of c of None \<Rightarrow> None | Some d \<Rightarrow> decimal (10 * acc + d) cs)"

text \<open>
  Modelled from the spec: what the level flag accepts as "a positive integer", a
  non-empty string of decimal digits whose value is not zero.
\<close>

definition positive_integer :: "string \<Rightarrow> nat option" where
  "positive_integer s =
     (if s = [] then None
      else case decimal 0 s of
             None \<Rightarrow> None
           | Some n \<Rightarrow> if 0 < n then Some n else None)"

text \<open>
  Modelled from the spec: the \<^verbatim>\<open>Set\<close> method of \<^verbatim>\<open>encoderFlag\<close>, whose declaration is
  not in \<^verbatim>\<open>zap.go\<close>. The spec: "an encoder-name flag (json|console) resolved to an
  encoder constructor"; an unparsable value is returned as an error of the flag set.
  The constructor found is handed to \<^verbatim>\<open>setFunc\<close>.
\<close>

definition encoderFlag_Set :: "(NewEncoderFunc option \<Rightarrow> Options \<Rightarrow> Options) \<Rightarrow> flag_Value" where
  "encoderFlag_Set setFunc flagValue o1 =
     (if flagValue = ''json'' then (None, setFunc (Some newJSONEncoder) o1)
      else if flagValue = ''console'' then (None, setFunc (Some newConsoleEncoder) o1)
      else (Some (InvalidValue flagValue ''invalid encoder value''), o1))"

text \<open>
  Modelled from the spec: the \<^verbatim>\<open>Set\<close> method of \<^verbatim>\<open>levelFlag\<close>, whose declaration is not
  in \<^verbatim>\<open>zap.go\<close>. The spec: "a level flag accepting named levels or arbitrary positive
  integers for custom verbosity tiers", the names being \<^verbatim>\<open>debug|info|error\<close>; the
  integer \<open>n\<close> selects the custom debug tier \<open>n\<close>, which is the zap level \<open>- n\<close>.
\<close>

definition levelFlag_Set :: "(zapcore_LevelEnabler option \<Rightarrow> Options \<Rightarrow> Options) \<Rightarrow> flag_Value" where
  "levelFlag_Set setFunc flagValue o1 =
     (if flagValue = ''debug'' then (None, setFunc (Some (zap_NewAtomicLevelAt zap_DebugLevel)) o1)
      else if flagValue = ''info'' then (None, setFunc (Some (zap_NewAtomicLevelAt zap_InfoLevel)) o1)
      else if flagValue = ''error'' then (None, setFunc (Some (zap_NewAtomicLevelAt zap_ErrorLevel)) o1)
      else case positive_integer flagValue of
             None \<Rightarrow> (Some (InvalidValue flagValue ''invalid log level''), o1)
           | Some n \<Rightarrow> (None, setFunc (Some (zap_NewAtomicLevelAt (- of_nat n))) o1))"

text \<open>
  Modelled from the spec: the \<^verbatim>\<open>Set\<close> method of \<^verbatim>\<open>stackTraceFlag\<close>, whose declaration is
  not in \<^verbatim>\<open>zap.go\<close>. The spec: "a stack-trace-level flag accepting named levels", the
  names being \<^verbatim>\<open>info|error\<close>.
\<close>

definition stackTraceFlag_Set :: "(zapcore_LevelEnabler option \<Rightarrow> Options \<Rightarrow> Options) \<Rightarrow> flag_Value" where
  "stackTraceFlag_Set setFunc flagValue o1 =
     (if flagValue = ''info'' then (None, setFunc (Some (zap_NewAtomicLevelAt zap_InfoLevel)) o1)
      else if flagValue = ''error'' then (None, setFunc (Some (zap_NewAtomicLevelAt zap_ErrorLevel)) o1)
      else (Some (InvalidValue flagValue ''invalid stacktrace level''), o1))"

subsection \<open>BindFlags\<close>

text \<open>
  The registrations of \<^verbatim>\<open>BindFlags\<close>, in order. \<^verbatim>\<open>BoolVar\<close> first stores the default,
  here \<^verbatim>\<open>o.Development\<close> itself, so the record is not changed by binding. The three
  \<^verbatim>\<open>setFunc\<close> closures are those of the source.
\<close>

definition BindFlags :: "FlagSet \<Rightarrow> panic + FlagSet" where
  "BindFlags fs =
     (case fs_Var fs (boolValue_Set (\<lambda>b o1. o1\<lparr>Development := b\<rparr>)) ''zap-devel'' of
        Inl p \<Rightarrow> Inl p
      | Inr fs1 \<Rightarrow>
     (case fs_Var fs1 (encoderFlag_Set (\<lambda>fromFlag o1. o1\<lparr>NewEncoder := fromFlag\<rparr>))
             ''zap-encoder'' of
        Inl p \<Rightarrow> Inl p
      | Inr fs2 \<Rightarrow>
     (case fs_Var fs2 (levelFlag_Set (\<lambda>fromFlag o1. o1\<lparr>Level := fromFlag\<rparr>))
             ''zap-log-level'' of
        Inl p \<Rightarrow> Inl p
      | Inr fs3 \<Rightarrow>
        fs_Var fs3 (stackTraceFlag_Set (\<lambda>fromFlag o1. o1\<lparr>StacktraceLevel := fromFlag\<rparr>))
          ''zap-stacktrace-level'')))"

section \<open>Options behind pointers\<close>

text \<open>
  \<^verbatim>\<open>NewRaw\<close> allocates its record (\<^verbatim>\<open>o := &Options{}\<close>) and \<^verbatim>\<open>UseFlagOptions(in)\<close> reads the
  caller's record through the pointer \<^verbatim>\<open>in\<close>. To speak about the caller's record the
  records live in a store, a list indexed by address; a new record goes to the end.
  A slice field holds its elements as a list: \<^verbatim>\<open>append\<close> writes no element below the
  length of its argument, so what another slice header shows is not changed by it.
\<close>

type_synonym store = "Options list"

type_synonym Opts_at = "nat \<Rightarrow> store \<Rightarrow> panic + store"

text \<open>A setter that touches only the record it is applied to.\<close>

definition at :: "Opts \<Rightarrow> Opts_at" where
  "at opt = (\<lambda>o1 h. if o1 < length h then Inr (h[o1 := opt (h ! o1)]) else Inl NilDereference)"

text \<open>\<^verbatim>\<open>*o = *in\<close>, with \<^verbatim>\<open>in\<close> possibly nil.\<close>

definition UseFlagOptions_at :: "nat option \<Rightarrow> Opts_at" where
  "UseFlagOptions_at in1 =
     (\<lambda>o1 h. case in1 of
        None \<Rightarrow> Inl NilDereference
      | Some i \<Rightarrow>
          if i < length h \<and> o1 < length h then Inr (h[o1 := h ! i]) else Inl NilDereference)"

fun applyOpts_at :: "nat \<Rightarrow> Opts_at list \<Rightarrow> store \<Rightarrow> panic + store" where
  "applyOpts_at o1 [] h = Inr h"
| "applyOpts_at o1 (opt # opts) h =
     (case opt o1 h of Inl p \<Rightarrow> Inl p | Inr h' \<Rightarrow> applyOpts_at o1 opts h')"

definition NewRaw_at :: "Opts_at list \<Rightarrow> store \<Rightarrow> panic + (zap_Logger \<times> store)" where
  "NewRaw_at opts h =
     (let o1 = length h; h1 = h @ [Options_zero]
      in case applyOpts_at o1 opts h1 of
           Inl p \<Rightarrow> Inl p
         | Inr h2 \<Rightarrow>
             (case addDefaults (h2 ! o1) of
                Inl p \<Rightarrow> Inl p
              | Inr o2 \<Rightarrow>
                  (let sink = zapcore_AddSync (DestWritter o2);
                       o3 = o2\<lparr>ZapOpts := ZapOpts o2 @ [zap_AddCallerSkip 1, zap_ErrorOutput sink]\<rparr>;
                       log = zap_New (zapcore_NewCore
                                (KubeAwareEncoder (Encoder o3) (Development o3)) sink (Level o3))
                   in Inr (WithOptions log (ZapOpts o3), h2[o1 := o3]))))"

section \<open>Vocabulary of the properties\<close>

text \<open>The fields of \<open>Options\<close>, and whether two records differ in a field.\<close>

datatype field =
    F_Development | F_Encoder | F_EncoderConfigOptions | F_NewEncoder
  | F_DestWritter | F_Level | F_StacktraceLevel | F_ZapOpts

fun differs :: "field \<Rightarrow> Options \<Rightarrow> Options \<Rightarrow> bool" where
  "differs F_Development a b = (Development a \<noteq> Development b)"
| "differs F_Encoder a b = (Encoder a \<noteq> Encoder b)"
| "differs F_EncoderConfigOptions a b = (EncoderConfigOptions a \<noteq> EncoderConfigOptions b)"
| "differs F_NewEncoder a b = (NewEncoder a \<noteq> NewEncoder b)"
| "differs F_DestWritter a b = (DestWritter a \<noteq> DestWritter b)"
| "differs F_Level a b = (Level a \<noteq> Level b)"
| "differs F_StacktraceLevel a b = (StacktraceLevel a \<noteq> StacktraceLevel b)"
| "differs F_ZapOpts a b = (ZapOpts a \<noteq> ZapOpts b)"

text \<open>
  A setter writes only field \<open>f\<close> when no other field of any record differs after it; it
  preserves \<open>f\<close> when that field never differs after it.
\<close>

definition only_writes :: "field \<Rightarrow> Opts \<Rightarrow> bool" where
  "only_writes f s = (\<forall>x g. differs g x (s x) \<longrightarrow> g = f)"

definition preserves :: "field \<Rightarrow> Opts \<Rightarrow> bool" where
  "preserves f s = (\<forall>x. \<not> differs f x (s x))"

section \<open>The defaulting pass in closed form\<close>

text \<open>
  Each branch of \<^verbatim>\<open>addDefaults\<close> is a chain of guarded assignments. The lemmas below give
  the record each one returns in one expression; the properties are read off from them.
\<close>

lemma addDefaults_development_eq:
  "addDefaults_development o1 = o1\<lparr>
     NewEncoder := Some (case NewEncoder o1 of None \<Rightarrow> newConsoleEncoder | Some f \<Rightarrow> f),
     Level := Some (case Level o1 of None \<Rightarrow> zap_NewAtomicLevelAt zap_DebugLevel | Some l \<Rightarrow> l),
     StacktraceLevel := Some (case StacktraceLevel o1 of
                                None \<Rightarrow> zap_NewAtomicLevelAt zap_WarnLevel | Some l \<Rightarrow> l),
     ZapOpts := ZapOpts o1 @ [zap_Development]\<rparr>"
  by (cases "NewEncoder o1"; cases "Level o1"; cases "StacktraceLevel o1")
     (simp_all add: addDefaults_development_def Let_def)

lemma addDefaults_production_eq:
  "addDefaults_production o1 = Inr (o1\<lparr>
     NewEncoder := Some (case NewEncoder o1 of None \<Rightarrow> newJSONEncoder | Some f \<Rightarrow> f),
     Level := Some (case Level o1 of None \<Rightarrow> zap_NewAtomicLevelAt zap_InfoLevel | Some l \<Rightarrow> l),
     StacktraceLevel := Some (case StacktraceLevel o1 of
                                None \<Rightarrow> zap_NewAtomicLevelAt zap_ErrorLevel | Some l \<Rightarrow> l),
     ZapOpts := ZapOpts o1 @
       (if Enabled (case Level o1 of None \<Rightarrow> zap_NewAtomicLevelAt zap_InfoLevel | Some l \<Rightarrow> l) (- 2)
        then [] else [zap_WrapCore sampler])\<rparr>)"
  by (cases "NewEncoder o1"; cases "Level o1"; cases "StacktraceLevel o1")
     (simp_all add: addDefaults_production_def Let_def)

lemma addDefaults_encoder_eq:
  "addDefaults_encoder o5 =
     (case NewEncoder o5 of
        None \<Rightarrow> (if Encoder o5 = None then Inl NilDereference else Inr o5)
      | Some f \<Rightarrow> Inr (o5\<lparr>Encoder :=
          Some (case Encoder o5 of None \<Rightarrow> f (EncoderConfigOptions o5) | Some e \<Rightarrow> e)\<rparr>))"
  by (cases "Encoder o5"; cases "NewEncoder o5") (simp_all add: addDefaults_encoder_def)

lemma addDefaults_dev:
  assumes "Development o0"
  shows "addDefaults o0 = Inr (o0\<lparr>
     DestWritter := Some (case DestWritter o0 of None \<Rightarrow> os_Stderr | Some w \<Rightarrow> w),
     NewEncoder := Some (case NewEncoder o0 of None \<Rightarrow> newConsoleEncoder | Some f \<Rightarrow> f),
     Level := Some (case Level o0 of None \<Rightarrow> zap_NewAtomicLevelAt zap_DebugLevel | Some l \<Rightarrow> l),
     StacktraceLevel := Some (case StacktraceLevel o0 of
                                None \<Rightarrow> zap_NewAtomicLevelAt zap_WarnLevel | Some l \<Rightarrow> l),
     Encoder := Some (case Encoder o0 of
                        None \<Rightarrow> (case NewEncoder o0 of None \<Rightarrow> newConsoleEncoder | Some f \<Rightarrow> f)
                                  (EncoderConfigOptions o0)
                      | Some e \<Rightarrow> e),
     ZapOpts := ZapOpts o0 @
        [zap_Development,
         zap_AddStacktrace (Some (case StacktraceLevel o0 of
                                None \<Rightarrow> zap_NewAtomicLevelAt zap_WarnLevel | Some l \<Rightarrow> l))]\<rparr>)"
  using assms
  by (cases "DestWritter o0"; cases "Encoder o0")
     (auto simp add: addDefaults_def Let_def addDefaults_development_eq addDefaults_encoder_eq
        intro!: Options.equality)

lemma addDefaults_prod:
  assumes "\<not> Development o0"
  shows "addDefaults o0 = Inr (o0\<lparr>
     DestWritter := Some (case DestWritter o0 of None \<Rightarrow> os_Stderr | Some w \<Rightarrow> w),
     NewEncoder := Some (case NewEncoder o0 of None \<Rightarrow> newJSONEncoder | Some f \<Rightarrow> f),
     Level := Some (case Level o0 of None \<Rightarrow> zap_NewAtomicLevelAt zap_InfoLevel | Some l \<Rightarrow> l),
     StacktraceLevel := Some (case StacktraceLevel o0 of
                                None \<Rightarrow> zap_NewAtomicLevelAt zap_ErrorLevel | Some l \<Rightarrow> l),
     Encoder := Some (case Encoder o0 of
                        None \<Rightarrow> (case NewEncoder o0 of None \<Rightarrow> newJSONEncoder | Some f \<Rightarrow> f)
                                  (EncoderConfigOptions o0)
                      | Some e \<Rightarrow> e),
     ZapOpts := ZapOpts o0 @
        (if Enabled (case Level o0 of None \<Rightarrow> zap_NewAtomicLevelAt zap_InfoLevel | Some l \<Rightarrow> l) (- 2)
         then [] else [zap_WrapCore sampler]) @
        [zap_AddStacktrace (Some (case StacktraceLevel o0 of
                                None \<Rightarrow> zap_NewAtomicLevelAt zap_ErrorLevel | Some l \<Rightarrow> l))]\<rparr>)"
  using assms
  by (cases "DestWritter o0"; cases "Encoder o0")
     (auto simp add: addDefaults_def Let_def addDefaults_production_eq addDefaults_encoder_eq
        intro!: Options.equality)

text \<open>The two encoder constructors are different functions: they differ on no customizers.\<close>

lemma newConsole_neq_newJSON: "newConsoleEncoder \<noteq> newJSONEncoder"
proof
  assume "newConsoleEncoder = newJSONEncoder"
  then have "newConsoleEncoder [] = newJSONEncoder []" by simp
  then show False by (simp add: newConsoleEncoder_def newJSONEncoder_def)
qed

lemma Options_zero_fields:
  "Development Options_zero = False" "Encoder Options_zero = None"
  "EncoderConfigOptions Options_zero = []" "NewEncoder Options_zero = None"
  "DestWritter Options_zero = None" "Level Options_zero = None"
  "StacktraceLevel Options_zero = None" "ZapOpts Options_zero = []"
  by (simp_all add: Options_zero_def)

text \<open>An atomic level enables level \<open>-2\<close> exactly when it is \<open>-2\<close> or below.\<close>

lemma Enabled_atomic_minus_2:
  "Enabled (zap_NewAtomicLevelAt l) (- 2) \<longleftrightarrow> sint l \<le> - 2"
  by simp

section \<open>Production defaults\<close>

text \<open>
  C1, as the source has it. With \<open>Development\<close> false the defaulting pass returns, and
  each of \<open>NewEncoder\<close>, \<open>Level\<close> and \<open>StacktraceLevel\<close> that was nil on entry is the JSON
  encoder constructor, the Info level and the Error level. To \<open>ZapOpts\<close> it appends the
  sampling wrapper (one second, first 100, then every 100th), unless the level then in
  force enables level \<open>-2\<close>, and after it the stack-trace option.
\<close>

theorem addDefaults_production_defaults:
  "Development o0 = False \<Longrightarrow>
   \<exists>o'. addDefaults o0 = Inr o' \<and>
     (NewEncoder o0 = None \<longrightarrow> NewEncoder o' = Some newJSONEncoder) \<and>
     (Level o0 = None \<longrightarrow> Level o' = Some (zap_NewAtomicLevelAt zap_InfoLevel)) \<and>
     (StacktraceLevel o0 = None \<longrightarrow>
        StacktraceLevel o' = Some (zap_NewAtomicLevelAt zap_ErrorLevel)) \<and>
     (\<exists>lvl. Level o' = Some lvl \<and>
        ZapOpts o' = ZapOpts o0 @
          (if Enabled lvl (- 2) then []
           else [zap_WrapCore (\<lambda>core. zapcore_NewSampler core time_Second 100 100)]) @
          [zap_AddStacktrace (StacktraceLevel o')])"
proof -
  have "sampler = (\<lambda>core. zapcore_NewSampler core time_Second 100 100)"
    by (rule ext) (simp add: sampler_def)
  then show "Development o0 = False \<Longrightarrow> ?thesis"
    by (simp add: addDefaults_prod)
qed

theorem addDefaults_production_defaults_witness:
  "Development Options_zero = False \<and> NewEncoder Options_zero = None \<and>
   Level Options_zero = None \<and> StacktraceLevel Options_zero = None \<and>
   (\<exists>o'. addDefaults Options_zero = Inr o' \<and>
      NewEncoder o' = Some newJSONEncoder \<and>
      Level o' = Some (zap_NewAtomicLevelAt zap_InfoLevel) \<and>
      StacktraceLevel o' = Some (zap_NewAtomicLevelAt zap_ErrorLevel) \<and>
      ZapOpts o' = [zap_WrapCore (\<lambda>core. zapcore_NewSampler core time_Second 100 100),
                    zap_AddStacktrace (Some (zap_NewAtomicLevelAt zap_ErrorLevel))])"
proof -
  note z = Options_zero_fields
  from addDefaults_production_defaults [OF z(1)] obtain o' where
    o': "addDefaults Options_zero = Inr o'"
      "NewEncoder o' = Some newJSONEncoder"
      "Level o' = Some (zap_NewAtomicLevelAt zap_InfoLevel)"
      "StacktraceLevel o' = Some (zap_NewAtomicLevelAt zap_ErrorLevel)"
      "\<exists>lvl. Level o' = Some lvl \<and>
        ZapOpts o' = ZapOpts Options_zero @
          (if Enabled lvl (- 2) then []
           else [zap_WrapCore (\<lambda>core. zapcore_NewSampler core time_Second 100 100)]) @
          [zap_AddStacktrace (StacktraceLevel o')]"
    using z by auto
  from o'(3,4,5) z(8)
  have "ZapOpts o' = [zap_WrapCore (\<lambda>core. zapcore_NewSampler core time_Second 100 100),
                      zap_AddStacktrace (Some (zap_NewAtomicLevelAt zap_ErrorLevel))]"
    by (auto simp: zap_InfoLevel_def)
  with o' z show ?thesis by blast
qed

text \<open>
  C1 as it is worded, "for every Options record with Development false", does not hold:
  a record that arrives with the console constructor (as after \<^verbatim>\<open>-zap-encoder=console\<close>)
  keeps it.
\<close>

theorem addDefaults_production_counterexample:
  "Development (Options_zero\<lparr>NewEncoder := Some newConsoleEncoder\<rparr>) = False \<and>
   map_sum id NewEncoder (addDefaults (Options_zero\<lparr>NewEncoder := Some newConsoleEncoder\<rparr>))
     = Inr (Some newConsoleEncoder) \<and>
   newConsoleEncoder \<noteq> newJSONEncoder"
  by (simp add: addDefaults_prod Options_zero_def newConsole_neq_newJSON)

section \<open>Development defaults\<close>

text \<open>
  C2, as the source has it. With \<open>Development\<close> true the defaulting pass returns, and each
  of \<open>NewEncoder\<close>, \<open>Level\<close> and \<open>StacktraceLevel\<close> that was nil on entry is the console
  encoder constructor, the Debug level and the Warn level. To \<open>ZapOpts\<close> it appends the
  marker \<^verbatim>\<open>zap.Development()\<close> and the stack-trace option, and nothing else: no sampling
  wrapper.
\<close>

theorem addDefaults_development_defaults:
  "Development o0 \<Longrightarrow>
   \<exists>o'. addDefaults o0 = Inr o' \<and>
     (NewEncoder o0 = None \<longrightarrow> NewEncoder o' = Some newConsoleEncoder) \<and>
     (Level o0 = None \<longrightarrow> Level o' = Some (zap_NewAtomicLevelAt zap_DebugLevel)) \<and>
     (StacktraceLevel o0 = None \<longrightarrow>
        StacktraceLevel o' = Some (zap_NewAtomicLevelAt zap_WarnLevel)) \<and>
     ZapOpts o' = ZapOpts o0 @ [zap_Development, zap_AddStacktrace (StacktraceLevel o')]"
  by (simp add: addDefaults_dev)

theorem addDefaults_development_defaults_witness:
  "Development (Options_zero\<lparr>Development := True\<rparr>) \<and>
   NewEncoder (Options_zero\<lparr>Development := True\<rparr>) = None \<and>
   Level (Options_zero\<lparr>Development := True\<rparr>) = None \<and>
   StacktraceLevel (Options_zero\<lparr>Development := True\<rparr>) = None \<and>
   (\<exists>o'. addDefaults (Options_zero\<lparr>Development := True\<rparr>) = Inr o' \<and>
      NewEncoder o' = Some newConsoleEncoder \<and>
      Level o' = Some (zap_NewAtomicLevelAt zap_DebugLevel) \<and>
      StacktraceLevel o' = Some (zap_NewAtomicLevelAt zap_WarnLevel) \<and>
      ZapOpts o' = [zap_Development,
                    zap_AddStacktrace (Some (zap_NewAtomicLevelAt zap_WarnLevel))])"
  using addDefaults_development_defaults [of "Options_zero\<lparr>Development := True\<rparr>"]
  by (auto simp: Options_zero_fields)

text \<open>
  C2 as it is worded, "for every Options record with Development true", does not hold:
  a record that arrives with the JSON constructor (as after \<^verbatim>\<open>-zap-encoder=json\<close>) keeps
  it in development mode.
\<close>

theorem addDefaults_development_counterexample:
  "Development (Options_zero\<lparr>Development := True, NewEncoder := Some newJSONEncoder\<rparr>) \<and>
   map_sum id NewEncoder
     (addDefaults (Options_zero\<lparr>Development := True, NewEncoder := Some newJSONEncoder\<rparr>))
     = Inr (Some newJSONEncoder) \<and>
   newJSONEncoder \<noteq> newConsoleEncoder"
  using newConsole_neq_newJSON by (auto simp add: addDefaults_dev Options_zero_def)

section \<open>What the defaulting pass leaves alone\<close>

text \<open>
  C8. The defaulting pass only fills fields that are unset: each of \<open>DestWritter\<close>,
  \<open>NewEncoder\<close>, \<open>Level\<close>, \<open>StacktraceLevel\<close> and \<open>Encoder\<close> that is not nil on entry has
  the same value when \<^verbatim>\<open>addDefaults\<close> returns, whatever \<open>Development\<close> is.
\<close>

theorem addDefaults_keeps_set_fields:
  "\<exists>o'. addDefaults o0 = Inr o' \<and>
     (DestWritter o0 \<noteq> None \<longrightarrow> DestWritter o' = DestWritter o0) \<and>
     (NewEncoder o0 \<noteq> None \<longrightarrow> NewEncoder o' = NewEncoder o0) \<and>
     (Level o0 \<noteq> None \<longrightarrow> Level o' = Level o0) \<and>
     (StacktraceLevel o0 \<noteq> None \<longrightarrow> StacktraceLevel o' = StacktraceLevel o0) \<and>
     (Encoder o0 \<noteq> None \<longrightarrow> Encoder o' = Encoder o0)"
  by (cases "Development o0") (auto simp add: addDefaults_dev addDefaults_prod)

theorem addDefaults_keeps_set_fields_witness:
  "\<exists>o'. addDefaults
      \<lparr> Development = True, Encoder = Some (OtherEncoder 0), EncoderConfigOptions = [],
        NewEncoder = Some newJSONEncoder, DestWritter = Some (OtherWriter 0),
        Level = Some (zap_NewAtomicLevelAt zap_ErrorLevel),
        StacktraceLevel = Some (zap_NewAtomicLevelAt zap_InfoLevel), ZapOpts = [] \<rparr> = Inr o' \<and>
     DestWritter o' = Some (OtherWriter 0) \<and>
     NewEncoder o' = Some newJSONEncoder \<and>
     Level o' = Some (zap_NewAtomicLevelAt zap_ErrorLevel) \<and>
     StacktraceLevel o' = Some (zap_NewAtomicLevelAt zap_InfoLevel) \<and>
     Encoder o' = Some (OtherEncoder 0)"
  using addDefaults_keeps_set_fields [of
      "\<lparr> Development = True, Encoder = Some (OtherEncoder 0), EncoderConfigOptions = [],
        NewEncoder = Some newJSONEncoder, DestWritter = Some (OtherWriter 0),
        Level = Some (zap_NewAtomicLevelAt zap_ErrorLevel),
        StacktraceLevel = Some (zap_NewAtomicLevelAt zap_InfoLevel), ZapOpts = [] \<rparr>"]
  by auto

text \<open>
  C10. A nil \<open>DestWritter\<close> becomes standard error, whatever \<open>Development\<close> is, and the
  logger then built has the synchronized standard error as the sink of its core and as
  its error output.
\<close>

theorem addDefaults_DestWritter_default:
  "DestWritter o0 = None \<Longrightarrow>
   \<exists>o'. addDefaults o0 = Inr o' \<and> DestWritter o' = Some os_Stderr \<and>
     (\<exists>enc lvl zs. NewRaw_build o0 =
        Inr (WithOptions
               (zap_New (zapcore_NewCore enc (zapcore_AddSync (Some os_Stderr)) lvl))
               (zs @ [zap_AddCallerSkip 1, zap_ErrorOutput (zapcore_AddSync (Some os_Stderr))])))"
  by (cases "Development o0")
     (simp_all add: addDefaults_dev addDefaults_prod NewRaw_build_def Let_def)

theorem addDefaults_DestWritter_default_witness:
  "DestWritter Options_zero = None \<and>
   (\<exists>o'. addDefaults Options_zero = Inr o' \<and> DestWritter o' = Some os_Stderr \<and>
     (\<exists>enc lvl zs. NewRaw_build Options_zero =
        Inr (WithOptions
               (zap_New (zapcore_NewCore enc (zapcore_AddSync (Some os_Stderr)) lvl))
               (zs @ [zap_AddCallerSkip 1, zap_ErrorOutput (zapcore_AddSync (Some os_Stderr))]))))"
  using addDefaults_DestWritter_default [of Options_zero]
  by (simp add: Options_zero_fields)

text \<open>
  C3. When \<open>Encoder\<close> is set on entry, the defaulting pass keeps it and the logger is built
  around it. \<open>NewEncoder\<close> and the \<open>EncoderConfigOptions\<close> are then not consulted: whatever
  they are replaced with, the logger built is the same.
\<close>

theorem explicit_Encoder_wins:
  "Encoder o0 = Some e \<Longrightarrow>
   (\<exists>o'. addDefaults o0 = Inr o' \<and> Encoder o' = Some e) \<and>
   (\<exists>sink lvl zs. NewRaw_build o0 =
      Inr (WithOptions
             (zap_New (zapcore_NewCore (KubeAwareEncoder (Some e) (Development o0)) sink lvl))
             zs)) \<and>
   NewRaw_build (o0\<lparr>NewEncoder := ne, EncoderConfigOptions := ecos\<rparr>) = NewRaw_build o0"
  by (cases "Development o0")
     (simp_all add: addDefaults_dev addDefaults_prod NewRaw_build_def Let_def)

theorem explicit_Encoder_wins_witness:
  "Encoder (Options_zero\<lparr>Encoder := Some (OtherEncoder 7)\<rparr>) = Some (OtherEncoder 7) \<and>
   (\<exists>o'. addDefaults (Options_zero\<lparr>Encoder := Some (OtherEncoder 7)\<rparr>) = Inr o' \<and>
          Encoder o' = Some (OtherEncoder 7)) \<and>
   NewRaw_build (Options_zero\<lparr>Encoder := Some (OtherEncoder 7),
        NewEncoder := Some newConsoleEncoder,
        EncoderConfigOptions := [\<lambda>c. EncoderConfig 1]\<rparr>)
     = NewRaw_build (Options_zero\<lparr>Encoder := Some (OtherEncoder 7)\<rparr>)"
  using explicit_Encoder_wins [where ?o0.0 = "Options_zero\<lparr>Encoder := Some (OtherEncoder 7)\<rparr>"
      and e = "OtherEncoder 7" and ne = "Some newConsoleEncoder"
      and ecos = "[\<lambda>c. EncoderConfig 1]"]
  by simp

section \<open>Logger construction\<close>

text \<open>
  C6. For every sequence of options, \<^verbatim>\<open>NewRaw\<close> applies them in order to the zero record
  and returns a logger. With \<open>o1\<close> the record the options leave: the sink is the
  synchronized destination, the one chosen in \<open>o1\<close> or else standard error; the core is
  built from the \<^verbatim>\<open>KubeAwareEncoder\<close> around the chosen encoder (the one set in \<open>o1\<close>, or
  else the one its constructor makes from the customizers), with \<open>Verbose\<close> the
  \<open>Development\<close> flag, from that sink, and from the chosen level; the options applied to
  the logger are the accumulated \<open>ZapOpts\<close> of \<open>o1\<close>, what the defaulting pass adds, then
  a caller skip of 1 and the error output on the same sink. What each setter of the
  package chooses is stated with it, and two calls are evaluated in full.
\<close>

theorem NewRaw_builds:
  "applyOpts Options_zero [] = Options_zero \<and>
   applyOpts Options_zero (opts @ [opt]) = opt (applyOpts Options_zero opts) \<and>
   NewRaw opts =
     (let o1 = applyOpts Options_zero opts;
          dest = (case DestWritter o1 of None \<Rightarrow> os_Stderr | Some w \<Rightarrow> w);
          newEnc = (case NewEncoder o1 of
                      None \<Rightarrow> if Development o1 then newConsoleEncoder else newJSONEncoder
                    | Some f \<Rightarrow> f);
          enc = (case Encoder o1 of None \<Rightarrow> newEnc (EncoderConfigOptions o1) | Some e \<Rightarrow> e);
          lvl = (case Level o1 of
                   None \<Rightarrow> zap_NewAtomicLevelAt
                             (if Development o1 then zap_DebugLevel else zap_InfoLevel)
                 | Some l \<Rightarrow> l);
          st = (case StacktraceLevel o1 of
                  None \<Rightarrow> zap_NewAtomicLevelAt
                            (if Development o1 then zap_WarnLevel else zap_ErrorLevel)
                | Some l \<Rightarrow> l);
          sink = zapcore_AddSync (Some dest)
      in Inr (WithOptions
                (zap_New (zapcore_NewCore
                   (KubeAwareEncoder (Some enc) (Development o1)) sink (Some lvl)))
                (ZapOpts o1 @
                 (if Development o1 then [zap_Development]
                  else if Enabled lvl (- 2) then []
                  else [zap_WrapCore (\<lambda>core. zapcore_NewSampler core time_Second 100 100)]) @
                 [zap_AddStacktrace (Some st), zap_AddCallerSkip 1, zap_ErrorOutput sink]))) \<and>
   Development (applyOpts Options_zero (opts @ [UseDevMode d])) = d \<and>
   DestWritter (applyOpts Options_zero (opts @ [WriteTo w])) = w \<and>
   Encoder (applyOpts Options_zero (opts @ [Encoder_opt e])) = e \<and>
   Encoder (applyOpts Options_zero (opts @ [JSONEncoder c1])) = Some (newJSONEncoder c1) \<and>
   Encoder (applyOpts Options_zero (opts @ [ConsoleEncoder c2])) = Some (newConsoleEncoder c2) \<and>
   Level (applyOpts Options_zero (opts @ [Level_opt l])) = l \<and>
   StacktraceLevel (applyOpts Options_zero (opts @ [StacktraceLevel_opt sl])) = sl \<and>
   ZapOpts (applyOpts Options_zero (opts @ [RawZapOpts zs]))
     = ZapOpts (applyOpts Options_zero opts) @ zs \<and>
   NewRaw [] =
     Inr (WithOptions
            (zap_New (zapcore_NewCore
               (KubeAwareEncoder (Some (zapcore_NewJSONEncoder zap_NewProductionEncoderConfig))
                  False)
               (zapcore_AddSync (Some os_Stderr))
               (Some (zap_NewAtomicLevelAt zap_InfoLevel))))
            [zap_WrapCore (\<lambda>core. zapcore_NewSampler core time_Second 100 100),
             zap_AddStacktrace (Some (zap_NewAtomicLevelAt zap_ErrorLevel)),
             zap_AddCallerSkip 1,
             zap_ErrorOutput (zapcore_AddSync (Some os_Stderr))]) \<and>
   NewRaw [UseDevMode True, WriteTo (Some (OtherWriter 0)),
           Level_opt (Some (zap_NewAtomicLevelAt zap_ErrorLevel)), RawZapOpts [OtherOption 0],
           Encoder_opt (Some (OtherEncoder 0))] =
     Inr (WithOptions
            (zap_New (zapcore_NewCore
               (KubeAwareEncoder (Some (OtherEncoder 0)) True)
               (zapcore_AddSync (Some (OtherWriter 0)))
               (Some (zap_NewAtomicLevelAt zap_ErrorLevel))))
            [OtherOption 0, zap_Development,
             zap_AddStacktrace (Some (zap_NewAtomicLevelAt zap_WarnLevel)),
             zap_AddCallerSkip 1,
             zap_ErrorOutput (zapcore_AddSync (Some (OtherWriter 0)))])"
proof -
  have smp: "sampler = (\<lambda>core. zapcore_NewSampler core time_Second 100 100)"
    by (rule ext) (simp add: sampler_def)
  have loop: "applyOpts Options_zero [] = Options_zero"
    "applyOpts Options_zero (opts @ [opt]) = opt (applyOpts Options_zero opts)"
    by (simp_all add: applyOpts_def)
  have build: "NewRaw opts =
     (let o1 = applyOpts Options_zero opts;
          dest = (case DestWritter o1 of None \<Rightarrow> os_Stderr | Some w \<Rightarrow> w);
          newEnc = (case NewEncoder o1 of
                      None \<Rightarrow> if Development o1 then newConsoleEncoder else newJSONEncoder
                    | Some f \<Rightarrow> f);
          enc = (case Encoder o1 of None \<Rightarrow> newEnc (EncoderConfigOptions o1) | Some e \<Rightarrow> e);
          lvl = (case Level o1 of
                   None \<Rightarrow> zap_NewAtomicLevelAt
                             (if Development o1 then zap_DebugLevel else zap_InfoLevel)
                 | Some l \<Rightarrow> l);
          st = (case StacktraceLevel o1 of
                  None \<Rightarrow> zap_NewAtomicLevelAt
                            (if Development o1 then zap_WarnLevel else zap_ErrorLevel)
                | Some l \<Rightarrow> l);
          sink = zapcore_AddSync (Some dest)
      in Inr (WithOptions
                (zap_New (zapcore_NewCore
                   (KubeAwareEncoder (Some enc) (Development o1)) sink (Some lvl)))
                (ZapOpts o1 @
                 (if Development o1 then [zap_Development]
                  else if Enabled lvl (- 2) then []
                  else [zap_WrapCore (\<lambda>core. zapcore_NewSampler core time_Second 100 100)]) @
                 [zap_AddStacktrace (Some st), zap_AddCallerSkip 1, zap_ErrorOutput sink])))"
    by (cases "Development (applyOpts Options_zero opts)";
        cases "NewEncoder (applyOpts Options_zero opts)";
        cases "Level (applyOpts Options_zero opts)";
        cases "StacktraceLevel (applyOpts Options_zero opts)")
       (simp_all add: addDefaults_dev addDefaults_prod NewRaw_def NewRaw_build_def Let_def smp)
  have setters:
    "Development (applyOpts Options_zero (opts @ [UseDevMode d])) = d"
    "DestWritter (applyOpts Options_zero (opts @ [WriteTo w])) = w"
    "Encoder (applyOpts Options_zero (opts @ [Encoder_opt e])) = e"
    "Encoder (applyOpts Options_zero (opts @ [JSONEncoder c1])) = Some (newJSONEncoder c1)"
    "Encoder (applyOpts Options_zero (opts @ [ConsoleEncoder c2])) = Some (newConsoleEncoder c2)"
    "Level (applyOpts Options_zero (opts @ [Level_opt l])) = l"
    "StacktraceLevel (applyOpts Options_zero (opts @ [StacktraceLevel_opt sl])) = sl"
    "ZapOpts (applyOpts Options_zero (opts @ [RawZapOpts zs]))
       = ZapOpts (applyOpts Options_zero opts) @ zs"
    by (simp_all add: applyOpts_def UseDevMode_def WriteTo_def Encoder_opt_def JSONEncoder_def
          ConsoleEncoder_def Level_opt_def StacktraceLevel_opt_def RawZapOpts_def)
  have zero: "NewRaw [] =
     Inr (WithOptions
            (zap_New (zapcore_NewCore
               (KubeAwareEncoder (Some (zapcore_NewJSONEncoder zap_NewProductionEncoderConfig))
                  False)
               (zapcore_AddSync (Some os_Stderr))
               (Some (zap_NewAtomicLevelAt zap_InfoLevel))))
            [zap_WrapCore (\<lambda>core. zapcore_NewSampler core time_Second 100 100),
             zap_AddStacktrace (Some (zap_NewAtomicLevelAt zap_ErrorLevel)),
             zap_AddCallerSkip 1,
             zap_ErrorOutput (zapcore_AddSync (Some os_Stderr))])"
    by (simp add: NewRaw_def NewRaw_build_def applyOpts_def addDefaults_prod Options_zero_def
          Let_def smp newJSONEncoder_def zap_InfoLevel_def)
  have dev: "NewRaw [UseDevMode True, WriteTo (Some (OtherWriter 0)),
           Level_opt (Some (zap_NewAtomicLevelAt zap_ErrorLevel)), RawZapOpts [OtherOption 0],
           Encoder_opt (Some (OtherEncoder 0))] =
     Inr (WithOptions
            (zap_New (zapcore_NewCore
               (KubeAwareEncoder (Some (OtherEncoder 0)) True)
               (zapcore_AddSync (Some (OtherWriter 0)))
               (Some (zap_NewAtomicLevelAt zap_ErrorLevel))))
            [OtherOption 0, zap_Development,
             zap_AddStacktrace (Some (zap_NewAtomicLevelAt zap_WarnLevel)),
             zap_AddCallerSkip 1,
             zap_ErrorOutput (zapcore_AddSync (Some (OtherWriter 0)))])"
    by (simp add: NewRaw_def NewRaw_build_def applyOpts_def addDefaults_dev Options_zero_def
          Let_def UseDevMode_def WriteTo_def Level_opt_def RawZapOpts_def Encoder_opt_def)
  from loop build setters zero dev show ?thesis by (intro conjI)
qed

section \<open>Options assembly\<close>

text \<open>The loop of \<^verbatim>\<open>NewRaw\<close> over a concatenation, and over setters that preserve a field.\<close>

lemma applyOpts_append: "applyOpts o1 (xs @ ys) = applyOpts (applyOpts o1 xs) ys"
  by (simp add: applyOpts_def)

lemma applyOpts_preserves:
  "\<forall>t\<in>set ys. preserves f t \<Longrightarrow> \<not> differs f x (applyOpts x ys)"
proof (induction ys arbitrary: x)
  case Nil
  show ?case by (cases f) (simp_all add: applyOpts_def)
next
  case (Cons t ys)
  from Cons.prems have t: "\<not> differs f x (t x)" by (simp add: preserves_def)
  from Cons have rest: "\<not> differs f (t x) (applyOpts (t x) ys)" by simp
  have "applyOpts x (t # ys) = applyOpts (t x) ys" by (simp add: applyOpts_def)
  with t rest show ?case by (cases f) simp_all
qed

text \<open>Each of the eight field setters of the package writes one field only.\<close>

lemma only_writes_setters:
  "only_writes F_Development (UseDevMode b)"
  "only_writes F_DestWritter (WriteTo w)"
  "only_writes F_Encoder (Encoder_opt e)"
  "only_writes F_Encoder (JSONEncoder c1)"
  "only_writes F_Encoder (ConsoleEncoder c2)"
  "only_writes F_Level (Level_opt l)"
  "only_writes F_StacktraceLevel (StacktraceLevel_opt sl)"
  "only_writes F_ZapOpts (RawZapOpts zs)"
  unfolding only_writes_def UseDevMode_def WriteTo_def Encoder_opt_def JSONEncoder_def
    ConsoleEncoder_def Level_opt_def StacktraceLevel_opt_def RawZapOpts_def
  by (intro allI impI, case_tac g, simp_all)+

text \<open>What each option of the package does to the record, and the last write to a field.\<close>

lemma applyOpts_last:
  "\<forall>t\<in>set ys. preserves f t \<Longrightarrow>
   \<not> differs f (s (applyOpts o1 xs)) (applyOpts o1 (xs @ s # ys))"
proof -
  assume p: "\<forall>t\<in>set ys. preserves f t"
  have "applyOpts o1 (xs @ s # ys) = applyOpts (s (applyOpts o1 xs)) ys"
    by (simp add: applyOpts_def)
  with applyOpts_preserves [OF p, of "s (applyOpts o1 xs)"] show ?thesis by simp
qed

lemma setters_write:
  "UseDevMode b x = x\<lparr>Development := b\<rparr>"
  "WriteTo w x = x\<lparr>DestWritter := w\<rparr>"
  "Encoder_opt e x = x\<lparr>Encoder := e\<rparr>"
  "JSONEncoder c1 x = x\<lparr>Encoder := Some (newJSONEncoder c1)\<rparr>"
  "ConsoleEncoder c2 x = x\<lparr>Encoder := Some (newConsoleEncoder c2)\<rparr>"
  "Level_opt l x = x\<lparr>Level := l\<rparr>"
  "StacktraceLevel_opt sl x = x\<lparr>StacktraceLevel := sl\<rparr>"
  "RawZapOpts zs x = x\<lparr>ZapOpts := ZapOpts x @ zs\<rparr>"
  "UseFlagOptions in1 x = in1"
  by (simp_all add: UseDevMode_def WriteTo_def Encoder_opt_def JSONEncoder_def
        ConsoleEncoder_def Level_opt_def StacktraceLevel_opt_def RawZapOpts_def
        UseFlagOptions_def)

text \<open>
  C5, as the source has it. The options are applied in the order of the sequence. Each of
  \<^verbatim>\<open>UseDevMode\<close>, \<^verbatim>\<open>WriteTo\<close>, \<^verbatim>\<open>Encoder\<close>, \<^verbatim>\<open>JSONEncoder\<close>, \<^verbatim>\<open>ConsoleEncoder\<close>, \<^verbatim>\<open>Level\<close>,
  \<^verbatim>\<open>StacktraceLevel\<close> and \<^verbatim>\<open>RawZapOpts\<close> writes its one field, with the value given, and
  leaves every other field as it was (\<^verbatim>\<open>RawZapOpts\<close> appends to \<open>ZapOpts\<close>);
  \<^verbatim>\<open>UseFlagOptions\<close> replaces the whole record. The last write wins: when no option after
  a setter touches its field, the field has in the end the value that setter wrote, and
  after \<^verbatim>\<open>UseFlagOptions(in)\<close> every field left alone has the value it has in \<open>in\<close>.
\<close>

theorem options_last_write_wins:
  "applyOpts o1 [] = o1 \<and>
   applyOpts o1 (xs @ [s]) = s (applyOpts o1 xs) \<and>
   UseDevMode b x = x\<lparr>Development := b\<rparr> \<and>
   WriteTo w x = x\<lparr>DestWritter := w\<rparr> \<and>
   Encoder_opt e x = x\<lparr>Encoder := e\<rparr> \<and>
   JSONEncoder c1 x = x\<lparr>Encoder := Some (newJSONEncoder c1)\<rparr> \<and>
   ConsoleEncoder c2 x = x\<lparr>Encoder := Some (newConsoleEncoder c2)\<rparr> \<and>
   Level_opt l x = x\<lparr>Level := l\<rparr> \<and>
   StacktraceLevel_opt sl x = x\<lparr>StacktraceLevel := sl\<rparr> \<and>
   RawZapOpts zs x = x\<lparr>ZapOpts := ZapOpts x @ zs\<rparr> \<and>
   UseFlagOptions in1 x = in1 \<and>
   only_writes F_Development (UseDevMode b) \<and>
   only_writes F_DestWritter (WriteTo w) \<and>
   only_writes F_Encoder (Encoder_opt e) \<and>
   only_writes F_Encoder (JSONEncoder c1) \<and>
   only_writes F_Encoder (ConsoleEncoder c2) \<and>
   only_writes F_Level (Level_opt l) \<and>
   only_writes F_StacktraceLevel (StacktraceLevel_opt sl) \<and>
   only_writes F_ZapOpts (RawZapOpts zs) \<and>
   ((\<forall>t\<in>set ys. preserves F_Development t) \<longrightarrow>
      Development (applyOpts o1 (xs @ UseDevMode b # ys)) = b) \<and>
   ((\<forall>t\<in>set ys. preserves F_DestWritter t) \<longrightarrow>
      DestWritter (applyOpts o1 (xs @ WriteTo w # ys)) = w) \<and>
   ((\<forall>t\<in>set ys. preserves F_Encoder t) \<longrightarrow>
      Encoder (applyOpts o1 (xs @ Encoder_opt e # ys)) = e \<and>
      Encoder (applyOpts o1 (xs @ JSONEncoder c1 # ys)) = Some (newJSONEncoder c1) \<and>
      Encoder (applyOpts o1 (xs @ ConsoleEncoder c2 # ys)) = Some (newConsoleEncoder c2)) \<and>
   ((\<forall>t\<in>set ys. preserves F_Level t) \<longrightarrow>
      Level (applyOpts o1 (xs @ Level_opt l # ys)) = l) \<and>
   ((\<forall>t\<in>set ys. preserves F_StacktraceLevel t) \<longrightarrow>
      StacktraceLevel (applyOpts o1 (xs @ StacktraceLevel_opt sl # ys)) = sl) \<and>
   ((\<forall>t\<in>set ys. preserves F_ZapOpts t) \<longrightarrow>
      ZapOpts (applyOpts o1 (xs @ RawZapOpts zs # ys)) = ZapOpts (applyOpts o1 xs) @ zs) \<and>
   ((\<forall>t\<in>set ys. preserves f t) \<longrightarrow>
      \<not> differs f in1 (applyOpts o1 (xs @ UseFlagOptions in1 # ys)) \<and>
      \<not> differs f (s (applyOpts o1 xs)) (applyOpts o1 (xs @ s # ys)))"
proof -
  have loop: "applyOpts o1 [] = o1" "applyOpts o1 (xs @ [s]) = s (applyOpts o1 xs)"
    by (simp_all add: applyOpts_def)
  have d: "(\<forall>t\<in>set ys. preserves F_Development t) \<longrightarrow>
      Development (applyOpts o1 (xs @ UseDevMode b # ys)) = b"
    using applyOpts_last [where f = F_Development and s = "UseDevMode b"]
    by (auto simp add: setters_write)
  have w: "(\<forall>t\<in>set ys. preserves F_DestWritter t) \<longrightarrow>
      DestWritter (applyOpts o1 (xs @ WriteTo w # ys)) = w"
    using applyOpts_last [where f = F_DestWritter and s = "WriteTo w"]
    by (auto simp add: setters_write)
  have e: "(\<forall>t\<in>set ys. preserves F_Encoder t) \<longrightarrow>
      Encoder (applyOpts o1 (xs @ Encoder_opt e # ys)) = e \<and>
      Encoder (applyOpts o1 (xs @ JSONEncoder c1 # ys)) = Some (newJSONEncoder c1) \<and>
      Encoder (applyOpts o1 (xs @ ConsoleEncoder c2 # ys)) = Some (newConsoleEncoder c2)"
    using applyOpts_last [where f = F_Encoder and s = "Encoder_opt e"]
      applyOpts_last [where f = F_Encoder and s = "JSONEncoder c1"]
      applyOpts_last [where f = F_Encoder and s = "ConsoleEncoder c2"]
    by (auto simp add: setters_write)
  have l: "(\<forall>t\<in>set ys. preserves F_Level t) \<longrightarrow>
      Level (applyOpts o1 (xs @ Level_opt l # ys)) = l"
    using applyOpts_last [where f = F_Level and s = "Level_opt l"]
    by (auto simp add: setters_write)
  have sl: "(\<forall>t\<in>set ys. preserves F_StacktraceLevel t) \<longrightarrow>
      StacktraceLevel (applyOpts o1 (xs @ StacktraceLevel_opt sl # ys)) = sl"
    using applyOpts_last [where f = F_StacktraceLevel and s = "StacktraceLevel_opt sl"]
    by (auto simp add: setters_write)
  have z: "(\<forall>t\<in>set ys. preserves F_ZapOpts t) \<longrightarrow>
      ZapOpts (applyOpts o1 (xs @ RawZapOpts zs # ys)) = ZapOpts (applyOpts o1 xs) @ zs"
    using applyOpts_last [where f = F_ZapOpts and s = "RawZapOpts zs"]
    by (auto simp add: setters_write)
  have u: "(\<forall>t\<in>set ys. preserves f t) \<longrightarrow>
      \<not> differs f in1 (applyOpts o1 (xs @ UseFlagOptions in1 # ys)) \<and>
      \<not> differs f (s (applyOpts o1 xs)) (applyOpts o1 (xs @ s # ys))"
    using applyOpts_last [where f = f and s = "UseFlagOptions in1"]
      applyOpts_last [where f = f and s = s]
    by (auto simp add: setters_write)
  from loop setters_write only_writes_setters d w e l sl z u show ?thesis by (intro conjI)
qed


theorem options_last_write_wins_witness:
  "preserves F_Encoder (UseDevMode True) \<and> preserves F_DestWritter (UseDevMode True) \<and>
   preserves F_Level (UseDevMode True) \<and> preserves F_StacktraceLevel (UseDevMode True) \<and>
   preserves F_ZapOpts (UseDevMode True) \<and> preserves F_Development (JSONEncoder []) \<and>
   Encoder (applyOpts Options_zero [ConsoleEncoder [], JSONEncoder [], UseDevMode True])
     = Some (newJSONEncoder []) \<and>
   DestWritter (applyOpts Options_zero
       [ConsoleEncoder [], WriteTo (Some (OtherWriter 1)), UseDevMode True])
     = Some (OtherWriter 1) \<and>
   Level (applyOpts Options_zero
       [ConsoleEncoder [], Level_opt (Some (zap_NewAtomicLevelAt zap_ErrorLevel)), UseDevMode True])
     = Some (zap_NewAtomicLevelAt zap_ErrorLevel) \<and>
   StacktraceLevel (applyOpts Options_zero
       [ConsoleEncoder [], StacktraceLevel_opt (Some (zap_NewAtomicLevelAt zap_InfoLevel)),
        UseDevMode True])
     = Some (zap_NewAtomicLevelAt zap_InfoLevel) \<and>
   ZapOpts (applyOpts Options_zero
       [ConsoleEncoder [], RawZapOpts [zap_AddCallerSkip 2], UseDevMode True])
     = [zap_AddCallerSkip 2] \<and>
   Level (applyOpts Options_zero
       [ConsoleEncoder [],
        UseFlagOptions (Options_zero\<lparr>Level := Some (zap_NewAtomicLevelAt zap_WarnLevel)\<rparr>),
        UseDevMode True])
     = Some (zap_NewAtomicLevelAt zap_WarnLevel) \<and>
   Development (applyOpts Options_zero [UseDevMode True, UseDevMode False, JSONEncoder []])
     = False"
proof -
  have pa: "preserves F_Encoder (UseDevMode True)" "preserves F_DestWritter (UseDevMode True)"
    "preserves F_Level (UseDevMode True)" "preserves F_StacktraceLevel (UseDevMode True)"
    "preserves F_ZapOpts (UseDevMode True)"
    by (simp_all add: preserves_def UseDevMode_def)
  have pb: "preserves F_Development (JSONEncoder [])"
    by (simp add: preserves_def JSONEncoder_def)
  have before: "ZapOpts (applyOpts Options_zero [ConsoleEncoder []]) = []"
    by (simp add: applyOpts_def ConsoleEncoder_def Options_zero_def)
  note a = options_last_write_wins [where ?o1.0 = Options_zero and xs = "[ConsoleEncoder []]"
      and ys = "[UseDevMode True]" and f = F_Level and ?c1.0 = "[]"
      and w = "Some (OtherWriter 1)" and l = "Some (zap_NewAtomicLevelAt zap_ErrorLevel)"
      and sl = "Some (zap_NewAtomicLevelAt zap_InfoLevel)" and zs = "[zap_AddCallerSkip 2]"
      and ?in1.0 = "Options_zero\<lparr>Level := Some (zap_NewAtomicLevelAt zap_WarnLevel)\<rparr>"]
  note b = options_last_write_wins [where ?o1.0 = Options_zero and xs = "[UseDevMode True]"
      and ys = "[JSONEncoder []]" and b = False]
  from a pa before have
    "Encoder (applyOpts Options_zero [ConsoleEncoder [], JSONEncoder [], UseDevMode True])
       = Some (newJSONEncoder [])"
    "DestWritter (applyOpts Options_zero
         [ConsoleEncoder [], WriteTo (Some (OtherWriter 1)), UseDevMode True])
       = Some (OtherWriter 1)"
    "Level (applyOpts Options_zero
         [ConsoleEncoder [], Level_opt (Some (zap_NewAtomicLevelAt zap_ErrorLevel)),
          UseDevMode True])
       = Some (zap_NewAtomicLevelAt zap_ErrorLevel)"
    "StacktraceLevel (applyOpts Options_zero
         [ConsoleEncoder [], StacktraceLevel_opt (Some (zap_NewAtomicLevelAt zap_InfoLevel)),
          UseDevMode True])
       = Some (zap_NewAtomicLevelAt zap_InfoLevel)"
    "ZapOpts (applyOpts Options_zero
         [ConsoleEncoder [], RawZapOpts [zap_AddCallerSkip 2], UseDevMode True])
       = [zap_AddCallerSkip 2]"
    "Level (applyOpts Options_zero
         [ConsoleEncoder [],
          UseFlagOptions (Options_zero\<lparr>Level := Some (zap_NewAtomicLevelAt zap_WarnLevel)\<rparr>),
          UseDevMode True])
       = Some (zap_NewAtomicLevelAt zap_WarnLevel)"
    by simp_all
  moreover from b pb have
    "Development (applyOpts Options_zero [UseDevMode True, UseDevMode False, JSONEncoder []])
       = False"
    by simp
  ultimately show ?thesis using pa pb by simp
qed

text \<open>
  C5 as it is worded, "each mutates exactly one field", does not hold of every option:
  \<^verbatim>\<open>UseFlagOptions(in)\<close> overwrites the whole record, here two fields at once.
\<close>

theorem UseFlagOptions_counterexample:
  "differs F_Development Options_zero
     (UseFlagOptions (Options_zero\<lparr>Development := True, DestWritter := Some os_Stderr\<rparr>)
        Options_zero) \<and>
   differs F_DestWritter Options_zero
     (UseFlagOptions (Options_zero\<lparr>Development := True, DestWritter := Some os_Stderr\<rparr>)
        Options_zero)"
  by (simp add: UseFlagOptions_def Options_zero_def)

section \<open>The caller's record\<close>

lemma addDefaults_total: "\<exists>o'. addDefaults o0 = Inr o'"
  by (cases "Development o0") (simp_all add: addDefaults_dev addDefaults_prod)

text \<open>
  C9. \<^verbatim>\<open>NewRaw(UseFlagOptions(in))\<close> works on a copy. With the caller's record at address \<open>i\<close>
  of the store, the call returns a logger, the record at \<open>i\<close> and every other record that
  existed before the call are unchanged, the only new cell is the record \<^verbatim>\<open>NewRaw\<close>
  allocated, and the logger is the one built from the value of the caller's record.
\<close>

theorem NewRaw_at_leaves_caller_record:
  "i < length h \<Longrightarrow>
   \<exists>log h'. NewRaw_at [UseFlagOptions_at (Some i)] h = Inr (log, h') \<and>
     h' ! i = h ! i \<and> take (length h) h' = h \<and> length h' = Suc (length h) \<and>
     NewRaw [UseFlagOptions (h ! i)] = Inr log"
proof -
  assume i: "i < length h"
  obtain o2 where o2: "addDefaults (h ! i) = Inr o2"
    using addDefaults_total by blast
  from i have cell: "(h @ [Options_zero]) ! i = h ! i"
    by (simp add: nth_append)
  from i have run: "applyOpts_at (length h) [UseFlagOptions_at (Some i)] (h @ [Options_zero])
             = Inr (h @ [h ! i])"
    by (simp add: UseFlagOptions_at_def cell)
  have pure: "applyOpts Options_zero [UseFlagOptions (h ! i)] = h ! i"
    by (simp add: applyOpts_def UseFlagOptions_def)
  from i show ?thesis
    by (simp add: NewRaw_at_def Let_def run o2 NewRaw_def NewRaw_build_def pure nth_append
          del: applyOpts_at.simps)
qed

theorem NewRaw_at_leaves_caller_record_witness:
  "(0::nat) < length [Options_zero\<lparr>Development := True\<rparr>] \<and>
   (\<exists>log h'. NewRaw_at [UseFlagOptions_at (Some 0)] [Options_zero\<lparr>Development := True\<rparr>]
                = Inr (log, h') \<and>
      h' ! 0 = Options_zero\<lparr>Development := True\<rparr> \<and> length h' = 2)"
  using NewRaw_at_leaves_caller_record [of 0 "[Options_zero\<lparr>Development := True\<rparr>]"]
  by auto

text \<open>
  The same holds for any sequence made of setters that touch only the record they are
  applied to and of \<^verbatim>\<open>UseFlagOptions\<close> on records of the caller: the records that existed
  before the call are unchanged.
\<close>

lemma applyOpts_at_frame:
  assumes "\<forall>opt\<in>set opts. (\<exists>s. opt = at s) \<or> (\<exists>i<n. opt = UseFlagOptions_at (Some i))"
    and "length h1 = Suc n" and "take n h1 = h"
  shows "\<exists>h2. applyOpts_at n opts h1 = Inr h2 \<and> length h2 = Suc n \<and> take n h2 = h"
  using assms
proof (induction opts arbitrary: h1)
  case Nil
  then show ?case by simp
next
  case (Cons opt opts)
  from Cons.prems(1) have "(\<exists>s. opt = at s) \<or> (\<exists>i<n. opt = UseFlagOptions_at (Some i))"
    by simp
  then obtain h' where h': "opt n h1 = Inr h'" "length h' = Suc n" "take n h' = h"
    using Cons.prems(2,3) by (auto simp add: at_def UseFlagOptions_at_def)
  from Cons.prems(1) have rest:
    "\<forall>opt\<in>set opts. (\<exists>s. opt = at s) \<or> (\<exists>i<n. opt = UseFlagOptions_at (Some i))"
    by simp
  from Cons.IH [OF rest h'(2,3)] h'(1) show ?case by simp
qed

lemma NewRaw_at_frame:
  assumes "\<forall>opt\<in>set opts. (\<exists>s. opt = at s) \<or> (\<exists>i<length h. opt = UseFlagOptions_at (Some i))"
  shows "\<exists>log h'. NewRaw_at opts h = Inr (log, h') \<and> length h' = Suc (length h) \<and>
           take (length h) h' = h"
proof -
  obtain h2 where h2: "applyOpts_at (length h) opts (h @ [Options_zero]) = Inr h2"
      "length h2 = Suc (length h)" "take (length h) h2 = h"
    using applyOpts_at_frame [OF assms, of "h @ [Options_zero]" h] by auto
  obtain o2 where o2: "addDefaults (h2 ! length h) = Inr o2"
    using addDefaults_total by blast
  from h2 o2 show ?thesis
    by (simp add: NewRaw_at_def Let_def)
qed

section \<open>Flags\<close>

text \<open>Looking up a name that the supplied flag set does not define.\<close>

lemma map_of_append_fresh:
  "name \<notin> fst ` set fs \<Longrightarrow> map_of (fs @ gs) name = map_of gs name"
  by (simp add: map_add_def map_of_eq_None_iff [THEN iffD2])

lemma positive_integer_names:
  "positive_integer ''debug'' = None" "positive_integer ''info'' = None"
  "positive_integer ''error'' = None"
  by (simp_all add: positive_integer_def)

lemma levelFlag_Set_integer: "positive_integer w = Some n \<Longrightarrow>
        levelFlag_Set sf w o1 = (None, sf (Some (zap_NewAtomicLevelAt (- of_nat n))) o1)"
proof -
  assume p: "positive_integer w = Some n"
  then have "w \<noteq> ''debug''" "w \<noteq> ''info''" "w \<noteq> ''error''"
    using positive_integer_names by auto
  with p show ?thesis by (simp add: levelFlag_Set_def)
qed

lemma BindFlags_eq:
  assumes "''zap-devel'' \<notin> fst ` set fs" "''zap-encoder'' \<notin> fst ` set fs"
    "''zap-log-level'' \<notin> fst ` set fs" "''zap-stacktrace-level'' \<notin> fst ` set fs"
  shows "BindFlags fs = Inr (fs @
     [(''zap-devel'', boolValue_Set (\<lambda>b o1. o1\<lparr>Development := b\<rparr>)),
      (''zap-encoder'', encoderFlag_Set (\<lambda>fromFlag o1. o1\<lparr>NewEncoder := fromFlag\<rparr>)),
      (''zap-log-level'', levelFlag_Set (\<lambda>fromFlag o1. o1\<lparr>Level := fromFlag\<rparr>)),
      (''zap-stacktrace-level'',
         stackTraceFlag_Set (\<lambda>fromFlag o1. o1\<lparr>StacktraceLevel := fromFlag\<rparr>))])"
  using assms by (simp add: BindFlags_def fs_Var_def)

lemma bound_flag_lookups:
  assumes "''zap-devel'' \<notin> fst ` set fs" "''zap-encoder'' \<notin> fst ` set fs"
    "''zap-log-level'' \<notin> fst ` set fs" "''zap-stacktrace-level'' \<notin> fst ` set fs"
  shows "map_of (fs @ [(''zap-devel'', a), (''zap-encoder'', b), (''zap-log-level'', c),
            (''zap-stacktrace-level'', d)]) ''zap-devel'' = Some a"
    "map_of (fs @ [(''zap-devel'', a), (''zap-encoder'', b), (''zap-log-level'', c),
            (''zap-stacktrace-level'', d)]) ''zap-encoder'' = Some b"
    "map_of (fs @ [(''zap-devel'', a), (''zap-encoder'', b), (''zap-log-level'', c),
            (''zap-stacktrace-level'', d)]) ''zap-log-level'' = Some c"
    "map_of (fs @ [(''zap-devel'', a), (''zap-encoder'', b), (''zap-log-level'', c),
            (''zap-stacktrace-level'', d)]) ''zap-stacktrace-level'' = Some d"
  using assms by (simp_all add: map_of_append_fresh del: map_of_append)

lemma fs_Parse_single:
  "map_of fs name = Some f \<Longrightarrow> f v o1 = (None, o2) \<Longrightarrow> fs_Parse fs [(name, v)] o1 = (None, o2)"
  by simp

text \<open>
  C4, as the source has it. On a flag set that defines none of the four names,
  \<^verbatim>\<open>BindFlags\<close> registers four flags, \<^verbatim>\<open>zap-devel\<close>, \<^verbatim>\<open>zap-encoder\<close>, \<^verbatim>\<open>zap-log-level\<close> and
  \<^verbatim>\<open>zap-stacktrace-level\<close>, after the flags already there. Parsing one of them writes the
  bound record: the boolean switch writes \<open>Development\<close>; the encoder name writes the
  encoder constructor to \<open>NewEncoder\<close>; a level name or a positive integer \<open>n\<close> writes
  \<open>Level\<close> (the integer as level \<open>- n\<close>); a stack-trace level name writes
  \<open>StacktraceLevel\<close>.
\<close>

theorem BindFlags_registers_four:
  "(\<forall>n \<in> set [''zap-devel'', ''zap-encoder'', ''zap-log-level'', ''zap-stacktrace-level''].
      n \<notin> fst ` set fs) \<Longrightarrow>
   \<exists>fs'. BindFlags fs = Inr fs' \<and>
     map fst fs' = map fst fs @
       [''zap-devel'', ''zap-encoder'', ''zap-log-level'', ''zap-stacktrace-level''] \<and>
     (strconv_ParseBool v = Some b \<longrightarrow>
        fs_Parse fs' [(''zap-devel'', v)] o1 = (None, o1\<lparr>Development := b\<rparr>)) \<and>
     fs_Parse fs' [(''zap-encoder'', ''json'')] o1 =
       (None, o1\<lparr>NewEncoder := Some newJSONEncoder\<rparr>) \<and>
     fs_Parse fs' [(''zap-encoder'', ''console'')] o1 =
       (None, o1\<lparr>NewEncoder := Some newConsoleEncoder\<rparr>) \<and>
     fs_Parse fs' [(''zap-log-level'', ''debug'')] o1 =
       (None, o1\<lparr>Level := Some (zap_NewAtomicLevelAt zap_DebugLevel)\<rparr>) \<and>
     fs_Parse fs' [(''zap-log-level'', ''info'')] o1 =
       (None, o1\<lparr>Level := Some (zap_NewAtomicLevelAt zap_InfoLevel)\<rparr>) \<and>
     fs_Parse fs' [(''zap-log-level'', ''error'')] o1 =
       (None, o1\<lparr>Level := Some (zap_NewAtomicLevelAt zap_ErrorLevel)\<rparr>) \<and>
     (positive_integer w = Some n \<longrightarrow>
        fs_Parse fs' [(''zap-log-level'', w)] o1 =
          (None, o1\<lparr>Level := Some (zap_NewAtomicLevelAt (- of_nat n))\<rparr>)) \<and>
     fs_Parse fs' [(''zap-stacktrace-level'', ''info'')] o1 =
       (None, o1\<lparr>StacktraceLevel := Some (zap_NewAtomicLevelAt zap_InfoLevel)\<rparr>) \<and>
     fs_Parse fs' [(''zap-stacktrace-level'', ''error'')] o1 =
       (None, o1\<lparr>StacktraceLevel := Some (zap_NewAtomicLevelAt zap_ErrorLevel)\<rparr>)"
proof -
  assume fresh: "\<forall>n \<in> set [''zap-devel'', ''zap-encoder'', ''zap-log-level'',
      ''zap-stacktrace-level'']. n \<notin> fst ` set fs"
  then have f: "''zap-devel'' \<notin> fst ` set fs" "''zap-encoder'' \<notin> fst ` set fs"
    "''zap-log-level'' \<notin> fst ` set fs" "''zap-stacktrace-level'' \<notin> fst ` set fs"
    by simp_all
  define fs' where "fs' = fs @
     [(''zap-devel'', boolValue_Set (\<lambda>b o1. o1\<lparr>Development := b\<rparr>)),
      (''zap-encoder'', encoderFlag_Set (\<lambda>fromFlag o1. o1\<lparr>NewEncoder := fromFlag\<rparr>)),
      (''zap-log-level'', levelFlag_Set (\<lambda>fromFlag o1. o1\<lparr>Level := fromFlag\<rparr>)),
      (''zap-stacktrace-level'',
         stackTraceFlag_Set (\<lambda>fromFlag o1. o1\<lparr>StacktraceLevel := fromFlag\<rparr>))]"
  have b: "BindFlags fs = Inr fs'"
    unfolding fs'_def by (rule BindFlags_eq [OF f])
  have names: "map fst fs' = map fst fs @
       [''zap-devel'', ''zap-encoder'', ''zap-log-level'', ''zap-stacktrace-level'']"
    by (simp add: fs'_def)
  have l: "map_of fs' ''zap-devel'' = Some (boolValue_Set (\<lambda>b o1. o1\<lparr>Development := b\<rparr>))"
    "map_of fs' ''zap-encoder''
       = Some (encoderFlag_Set (\<lambda>fromFlag o1. o1\<lparr>NewEncoder := fromFlag\<rparr>))"
    "map_of fs' ''zap-log-level''
       = Some (levelFlag_Set (\<lambda>fromFlag o1. o1\<lparr>Level := fromFlag\<rparr>))"
    "map_of fs' ''zap-stacktrace-level''
       = Some (stackTraceFlag_Set (\<lambda>fromFlag o1. o1\<lparr>StacktraceLevel := fromFlag\<rparr>))"
    unfolding fs'_def by (rule bound_flag_lookups [OF f])+
  have 1: "strconv_ParseBool v = Some b \<longrightarrow>
        fs_Parse fs' [(''zap-devel'', v)] o1 = (None, o1\<lparr>Development := b\<rparr>)"
  proof
    assume "strconv_ParseBool v = Some b"
    then have "boolValue_Set (\<lambda>b o1. o1\<lparr>Development := b\<rparr>) v o1 = (None, o1\<lparr>Development := b\<rparr>)"
      by (simp add: boolValue_Set_def)
    then show "fs_Parse fs' [(''zap-devel'', v)] o1 = (None, o1\<lparr>Development := b\<rparr>)"
      by (rule fs_Parse_single [OF l(1)])
  qed
  have 2: "fs_Parse fs' [(''zap-encoder'', ''json'')] o1 =
       (None, o1\<lparr>NewEncoder := Some newJSONEncoder\<rparr>)"
    by (rule fs_Parse_single [OF l(2)]) (simp add: encoderFlag_Set_def)
  have 3: "fs_Parse fs' [(''zap-encoder'', ''console'')] o1 =
       (None, o1\<lparr>NewEncoder := Some newConsoleEncoder\<rparr>)"
    by (rule fs_Parse_single [OF l(2)]) (simp add: encoderFlag_Set_def)
  have 4: "fs_Parse fs' [(''zap-log-level'', ''debug'')] o1 =
       (None, o1\<lparr>Level := Some (zap_NewAtomicLevelAt zap_DebugLevel)\<rparr>)"
    by (rule fs_Parse_single [OF l(3)]) (simp add: levelFlag_Set_def)
  have 5: "fs_Parse fs' [(''zap-log-level'', ''info'')] o1 =
       (None, o1\<lparr>Level := Some (zap_NewAtomicLevelAt zap_InfoLevel)\<rparr>)"
    by (rule fs_Parse_single [OF l(3)]) (simp add: levelFlag_Set_def)
  have 6: "fs_Parse fs' [(''zap-log-level'', ''error'')] o1 =
       (None, o1\<lparr>Level := Some (zap_NewAtomicLevelAt zap_ErrorLevel)\<rparr>)"
    by (rule fs_Parse_single [OF l(3)]) (simp add: levelFlag_Set_def)
  have 7: "positive_integer w = Some n \<longrightarrow>
        fs_Parse fs' [(''zap-log-level'', w)] o1 =
          (None, o1\<lparr>Level := Some (zap_NewAtomicLevelAt (- of_nat n))\<rparr>)"
  proof
    assume "positive_integer w = Some n"
    then have "levelFlag_Set (\<lambda>fromFlag o1. o1\<lparr>Level := fromFlag\<rparr>) w o1
          = (None, o1\<lparr>Level := Some (zap_NewAtomicLevelAt (- of_nat n))\<rparr>)"
      by (rule levelFlag_Set_integer)
    then show "fs_Parse fs' [(''zap-log-level'', w)] o1 =
          (None, o1\<lparr>Level := Some (zap_NewAtomicLevelAt (- of_nat n))\<rparr>)"
      by (rule fs_Parse_single [OF l(3)])
  qed
  have 8: "fs_Parse fs' [(''zap-stacktrace-level'', ''info'')] o1 =
       (None, o1\<lparr>StacktraceLevel := Some (zap_NewAtomicLevelAt zap_InfoLevel)\<rparr>)"
    by (rule fs_Parse_single [OF l(4)]) (simp add: stackTraceFlag_Set_def)
  have 9: "fs_Parse fs' [(''zap-stacktrace-level'', ''error'')] o1 =
       (None, o1\<lparr>StacktraceLevel := Some (zap_NewAtomicLevelAt zap_ErrorLevel)\<rparr>)"
    by (rule fs_Parse_single [OF l(4)]) (simp add: stackTraceFlag_Set_def)
  from b names 1 2 3 4 5 6 7 8 9 show ?thesis by blast
qed

theorem BindFlags_registers_four_witness:
  "strconv_ParseBool ''true'' = Some True \<and> positive_integer ''3'' = Some 3 \<and>
   (\<exists>fs'. BindFlags [] = Inr fs' \<and>
      map fst fs' = [''zap-devel'', ''zap-encoder'', ''zap-log-level'', ''zap-stacktrace-level''] \<and>
      fs_Parse fs' [(''zap-devel'', ''true'')] Options_zero =
        (None, Options_zero\<lparr>Development := True\<rparr>) \<and>
      fs_Parse fs' [(''zap-log-level'', ''3'')] Options_zero =
        (None, Options_zero\<lparr>Level := Some (zap_NewAtomicLevelAt (- 3))\<rparr>))"
proof -
  have h: "\<forall>n \<in> set [''zap-devel'', ''zap-encoder'', ''zap-log-level'',
      ''zap-stacktrace-level'']. n \<notin> fst ` set ([] :: FlagSet)"
    by simp
  have t: "strconv_ParseBool ''true'' = Some True"
    by (simp add: strconv_ParseBool_def)
  have p: "positive_integer ''3'' = Some 3"
    by (simp add: positive_integer_def)
  from BindFlags_registers_four [OF h, where v = "''true''" and b = True
      and ?o1.0 = Options_zero and w = "''3''" and n = 3] t p
  show ?thesis by auto
qed

text \<open>
  C4 as it is worded counts five flags; \<^verbatim>\<open>BindFlags\<close> registers four.
\<close>

theorem BindFlags_five_counterexample:
  "map_sum id length (BindFlags []) = Inr 4 \<and> (4::nat) \<noteq> 5"
  by (simp add: BindFlags_def fs_Var_def)

text \<open>The encoder flag given twice: the second value is the one that stays.\<close>

lemma zap_encoder_last_flag_wins:
  "BindFlags [] = Inr fs' \<Longrightarrow>
   fs_Parse fs' [(''zap-encoder'', ''console''), (''zap-encoder'', ''json'')] o1 =
     (None, o1\<lparr>NewEncoder := Some newJSONEncoder\<rparr>)"
  by (auto simp add: BindFlags_def fs_Var_def encoderFlag_Set_def)

text \<open>
  C7. Parsing \<^verbatim>\<open>-zap-log-level=5\<close> on a production-mode record sets \<open>Level\<close> to the atomic
  level \<open>-5\<close>, which enables the custom debug tier 5 and also level \<open>-2\<close>; the defaulting
  pass that follows keeps that level and appends only the stack-trace option to
  \<open>ZapOpts\<close>: no sampling wrapper.
\<close>

theorem log_level_5_disables_sampling:
  "Development o1 = False \<Longrightarrow>
   \<exists>fs' o2 o3. BindFlags [] = Inr fs' \<and>
     fs_Parse fs' [(''zap-log-level'', ''5'')] o1 = (None, o2) \<and>
     Level o2 = Some (zap_NewAtomicLevelAt (- 5)) \<and>
     Enabled (zap_NewAtomicLevelAt (- 5)) (- 5) \<and>
     Enabled (zap_NewAtomicLevelAt (- 5)) (- 2) \<and>
     addDefaults o2 = Inr o3 \<and>
     Level o3 = Some (zap_NewAtomicLevelAt (- 5)) \<and>
     ZapOpts o3 = ZapOpts o1 @ [zap_AddStacktrace (StacktraceLevel o3)]"
proof -
  assume prod: "Development o1 = False"
  have h: "\<forall>n \<in> set [''zap-devel'', ''zap-encoder'', ''zap-log-level'',
      ''zap-stacktrace-level'']. n \<notin> fst ` set ([] :: FlagSet)"
    by simp
  have p: "positive_integer ''5'' = Some 5"
    by (simp add: positive_integer_def)
  define o2 where "o2 = o1\<lparr>Level := Some (zap_NewAtomicLevelAt (- 5))\<rparr>"
  have b: "BindFlags [] = Inr
     [(''zap-devel'', boolValue_Set (\<lambda>b o1. o1\<lparr>Development := b\<rparr>)),
      (''zap-encoder'', encoderFlag_Set (\<lambda>fromFlag o1. o1\<lparr>NewEncoder := fromFlag\<rparr>)),
      (''zap-log-level'', levelFlag_Set (\<lambda>fromFlag o1. o1\<lparr>Level := fromFlag\<rparr>)),
      (''zap-stacktrace-level'',
         stackTraceFlag_Set (\<lambda>fromFlag o1. o1\<lparr>StacktraceLevel := fromFlag\<rparr>))]"
    using BindFlags_eq [of "[]"] by simp
  have parse: "fs_Parse
     [(''zap-devel'', boolValue_Set (\<lambda>b o1. o1\<lparr>Development := b\<rparr>)),
      (''zap-encoder'', encoderFlag_Set (\<lambda>fromFlag o1. o1\<lparr>NewEncoder := fromFlag\<rparr>)),
      (''zap-log-level'', levelFlag_Set (\<lambda>fromFlag o1. o1\<lparr>Level := fromFlag\<rparr>)),
      (''zap-stacktrace-level'',
         stackTraceFlag_Set (\<lambda>fromFlag o1. o1\<lparr>StacktraceLevel := fromFlag\<rparr>))]
     [(''zap-log-level'', ''5'')] o1 = (None, o2)"
    by (simp add: levelFlag_Set_integer [OF p] o2_def)
  have l2: "Level o2 = Some (zap_NewAtomicLevelAt (- 5))"
    by (simp add: o2_def)
  have e: "Enabled (zap_NewAtomicLevelAt (- 5)) (- 5)" "Enabled (zap_NewAtomicLevelAt (- 5)) (- 2)"
    by simp_all
  from prod have d2: "\<not> Development o2" by (simp add: o2_def)
  have z2: "ZapOpts o2 = ZapOpts o1" by (simp add: o2_def)
  obtain o3 where o3: "addDefaults o2 = Inr o3" "Level o3 = Some (zap_NewAtomicLevelAt (- 5))"
     "ZapOpts o3 = ZapOpts o2 @ [zap_AddStacktrace (StacktraceLevel o3)]"
    using addDefaults_prod [OF d2] l2 e(2) by simp
  from b parse l2 e o3 z2 show ?thesis by auto
qed

theorem log_level_5_disables_sampling_witness:
  "Development Options_zero = False \<and>
   (\<exists>fs' o2 o3. BindFlags [] = Inr fs' \<and>
     fs_Parse fs' [(''zap-log-level'', ''5'')] Options_zero = (None, o2) \<and>
     Level o2 = Some (zap_NewAtomicLevelAt (- 5)) \<and>
     addDefaults o2 = Inr o3 \<and>
     ZapOpts o3 = [zap_AddStacktrace (StacktraceLevel o3)])"
proof -
  have d: "Development Options_zero = False" by (simp add: Options_zero_fields)
  from log_level_5_disables_sampling [OF d] d show ?thesis
    by (fastforce simp: Options_zero_fields)
qed

end
